theory Spec2Isabelle
  imports Complex_Main "HOL-Library.DAList"
begin

section \<open>Floating-point values\<close>

text \<open>
  The regularizer of \<^verbatim>\<open>src/artm/regularizer/smooth_sparse_phi.cc\<close> computes with
  \<^verbatim>\<open>float\<close> and \<^verbatim>\<open>double\<close>. A value of either type is a finite real (\<open>Finite 0\<close> is
  the positive zero), the negative zero, an infinity or a NaN; the payload of a NaN is
  not kept apart. Every \<^verbatim>\<open>float\<close> is a \<^verbatim>\<open>double\<close>, so the promotion from \<^verbatim>\<open>float\<close> to
  \<^verbatim>\<open>double\<close> changes nothing.
\<close>

datatype ieee = Finite real | NegZero | PInf | NInf | NaN

text \<open>The classes of a value, its sign bit and its magnitude.\<close>

fun is_nan :: "ieee \<Rightarrow> bool" where
  "is_nan NaN = True"
| "is_nan x = False"

fun is_infinite :: "ieee \<Rightarrow> bool" where
  "is_infinite PInf = True"
| "is_infinite NInf = True"
| "is_infinite x = False"

fun is_zero :: "ieee \<Rightarrow> bool" where
  "is_zero (Finite r) = (r = 0)"
| "is_zero NegZero = True"
| "is_zero x = False"

fun is_finite :: "ieee \<Rightarrow> bool" where
  "is_finite (Finite r) = True"
| "is_finite NegZero = True"
| "is_finite x = False"

fun sign_bit :: "ieee \<Rightarrow> bool" where
  "sign_bit (Finite r) = (r < 0)"
| "sign_bit NegZero = True"
| "sign_bit NInf = True"
| "sign_bit x = False"

fun magnitude :: "ieee \<Rightarrow> real" where
  "magnitude (Finite r) = \<bar>r\<bar>"
| "magnitude x = 0"

text \<open>
  Rounding to the nearest value of a binary format with precision \<open>p\<close> and largest
  exponent \<open>emax\<close>, ties to the even significand: the magnitude \<open>m\<close> is positive, \<open>e\<close>
  is its exponent (not below the least normal exponent \<open>1 - emax\<close>, where the subnormal
  values start), \<open>q\<close> is the unit in the last place. A rounded magnitude of
  \<open>2 ^ (emax + 1)\<close> or more overflows to an infinity, one of 0 underflows to a zero.
\<close>

definition round_even :: "real \<Rightarrow> int" where
  "round_even y =
     (let f = \<lfloor>y\<rfloor>
      in if y - of_int f < 1 / 2 then f
         else if 1 / 2 < y - of_int f then f + 1
         else if even f then f else f + 1)"

definition fround :: "nat \<Rightarrow> int \<Rightarrow> bool \<Rightarrow> real \<Rightarrow> ieee" where
  "fround p emax neg m =
     (let e = max \<lfloor>log 2 m\<rfloor> (1 - emax);
          q = 2 powr of_int (e - (int p - 1));
          y = of_int (round_even (m / q)) * q
      in if 2 powr of_int (emax + 1) \<le> y then (if neg then NInf else PInf)
         else if y = 0 then (if neg then NegZero else Finite 0)
         else Finite (if neg then - y else y))"

text \<open>The formats binary64 of \<^verbatim>\<open>double\<close> and binary32 of \<^verbatim>\<open>float\<close>.\<close>

definition round_double :: "bool \<Rightarrow> real \<Rightarrow> ieee" where
  "round_double neg m = fround 53 1023 neg m"

definition round_float :: "bool \<Rightarrow> real \<Rightarrow> ieee" where
  "round_float neg m = fround 24 127 neg m"

text \<open>
  The product of two \<^verbatim>\<open>double\<close> values: a NaN operand, or a zero times an infinity,
  gives NaN; otherwise the sign is the exclusive or of the signs, and the exact product
  of two finite non-zero values is rounded.
\<close>

definition dmul :: "ieee \<Rightarrow> ieee \<Rightarrow> ieee" where
  "dmul a b =
     (if is_nan a \<or> is_nan b then NaN
      else if (is_zero a \<and> is_infinite b) \<or> (is_infinite a \<and> is_zero b) then NaN
      else if is_infinite a \<or> is_infinite b
        then (if sign_bit a \<noteq> sign_bit b then NInf else PInf)
      else if is_zero a \<or> is_zero b
        then (if sign_bit a \<noteq> sign_bit b then NegZero else Finite 0)
      else round_double (sign_bit a \<noteq> sign_bit b) (magnitude a * magnitude b))"

text \<open>The conversion of a \<^verbatim>\<open>double\<close> to \<^verbatim>\<open>float\<close>: finite non-zero values are rounded.\<close>

definition float_of_double :: "ieee \<Rightarrow> ieee" where
  "float_of_double x =
     (case x of
        Finite r \<Rightarrow> if r = 0 then Finite 0 else round_float (r < 0) \<bar>r\<bar>
      | NegZero \<Rightarrow> NegZero
      | PInf \<Rightarrow> PInf
      | NInf \<Rightarrow> NInf
      | NaN \<Rightarrow> NaN)"

section \<open>Phi matrices, tokens and dictionaries\<close>

record Token =
  keyword :: string
  class_id :: string

text \<open>
  Modelled from the spec: the class \<^verbatim>\<open>PhiMatrix\<close> (\<^verbatim>\<open>artm/core/phi_matrix.h\<close> is not among
  the sources) is a 2D matrix indexed by (token index, topic index), with token and
  topic metadata accessible by index. The cells are a store from index pairs to values;
  \<^verbatim>\<open>set\<close> replaces one cell and nothing else.
\<close>

record PhiMatrix =
  tokens :: "Token list"
  topic_name :: "string list"
  cell :: "nat \<Rightarrow> nat \<Rightarrow> ieee"

definition token_size :: "PhiMatrix \<Rightarrow> nat" where
  "token_size m = length (tokens m)"

definition topic_size :: "PhiMatrix \<Rightarrow> nat" where
  "topic_size m = length (topic_name m)"

definition token :: "PhiMatrix \<Rightarrow> nat \<Rightarrow> Token" where
  "token m token_id = tokens m ! token_id"

definition get :: "PhiMatrix \<Rightarrow> nat \<Rightarrow> nat \<Rightarrow> ieee" where
  "get m token_id topic_id = cell m token_id topic_id"

definition set_cell :: "PhiMatrix \<Rightarrow> nat \<Rightarrow> nat \<Rightarrow> ieee \<Rightarrow> PhiMatrix" where
  "set_cell m token_id topic_id v =
     m\<lparr>cell := (cell m)(token_id := (cell m token_id)(topic_id := v))\<rparr>"

text \<open>
  Modelled from the spec: \<^verbatim>\<open>core::is_member\<close> (\<^verbatim>\<open>artm/core/protobuf_helpers.h\<close> is not
  among the sources). The scalar form tells whether a value occurs in a repeated field;
  the vector form answers positionally for every element of its first argument.
\<close>

primrec is_member :: "'a \<Rightarrow> 'a list \<Rightarrow> bool" where
  "is_member v [] = False"
| "is_member v (x # xs) = (if x = v then True else is_member v xs)"

definition is_member_vec :: "'a list \<Rightarrow> 'a list \<Rightarrow> bool list" where
  "is_member_vec elements container = map (\<lambda>e. is_member e container) elements"

record DictionaryEntry =
  token_value :: ieee

text \<open>
  A dictionary answers \<^verbatim>\<open>entry(token)\<close> with an entry or with the null pointer; the
  regularizer's \<^verbatim>\<open>dictionary(name)\<close> answers with a dictionary or with the null pointer.
\<close>

type_synonym Dictionary = "Token \<Rightarrow> DictionaryEntry option"

section \<open>The SmoothSparsePhi regularizer\<close>

record 'tc SmoothSparsePhiConfig =
  config_topic_name :: "string list"
  config_class_id :: "string list"
  config_dictionary_name :: "string option"
  config_transform_config :: "'tc option"

text \<open>
  The members \<^verbatim>\<open>config_\<close> and \<^verbatim>\<open>transform_function_\<close> of the class; an identifier
  cannot end in an underscore here, so the fields drop it.
\<close>

record 'tc SmoothSparsePhi =
  config :: "'tc SmoothSparsePhiConfig"
  transform_function :: "ieee \<Rightarrow> ieee"

text \<open>
  \<^verbatim>\<open>TransformFunction::create\<close> is not among the sources. Its two overloads are one
  parameter \<open>create\<close>: \<open>create (Some tc)\<close> is \<^verbatim>\<open>create(tc)\<close> and \<open>create None\<close> is
  \<^verbatim>\<open>create()\<close>.
\<close>

definition SmoothSparsePhi_new ::
  "('tc option \<Rightarrow> ieee \<Rightarrow> ieee) \<Rightarrow> 'tc SmoothSparsePhiConfig \<Rightarrow> 'tc SmoothSparsePhi" where
  "SmoothSparsePhi_new create conf =
     \<lparr>config = conf,
      transform_function =
        (case config_transform_config conf of
           Some tc \<Rightarrow> create (Some tc)
         | None \<Rightarrow> create None)\<rparr>"

text \<open>The coefficient of one token, lines 49 to 58 of the source.\<close>

definition coefficient_of ::
  "Dictionary option \<Rightarrow> bool \<Rightarrow> string list \<Rightarrow> Token \<Rightarrow> ieee" where
  "coefficient_of dictionary_ptr use_all_classes class_ids tok =
     (case dictionary_ptr of
        None \<Rightarrow> Finite 1
      | Some d \<Rightarrow>
          if use_all_classes \<or> is_member (class_id tok) class_ids
          then (case d tok of Some entry \<Rightarrow> token_value entry | None \<Rightarrow> Finite 0)
          else Finite 1)"

text \<open>
  The inner loop over topics, lines 61 to 66. The \<^verbatim>\<open>float\<close> read from \<^verbatim>\<open>p_wt\<close> is
  promoted to the \<^verbatim>\<open>double\<close> argument of \<^verbatim>\<open>apply\<close>; the \<^verbatim>\<open>float\<close> coefficient is promoted
  and multiplied with the \<^verbatim>\<open>double\<close> value; the \<^verbatim>\<open>double\<close> product is converted to the
  \<^verbatim>\<open>float\<close> that \<^verbatim>\<open>set\<close> stores.
\<close>

definition topic_loop ::
  "(ieee \<Rightarrow> ieee) \<Rightarrow> PhiMatrix \<Rightarrow> bool list \<Rightarrow> ieee \<Rightarrow> nat \<Rightarrow> PhiMatrix \<Rightarrow> PhiMatrix" where
  "topic_loop apply_fn p_wt topics_to_regularize coefficient token_id result =
     fold (\<lambda>topic_id r.
             if topics_to_regularize ! topic_id
             then (let value = apply_fn (get p_wt token_id topic_id)
                   in set_cell r token_id topic_id (float_of_double (dmul coefficient value)))
             else r)
          [0..<topic_size p_wt] result"

text \<open>One iteration of the outer loop over tokens, lines 49 to 66.\<close>

definition token_step ::
  "(ieee \<Rightarrow> ieee) \<Rightarrow> PhiMatrix \<Rightarrow> bool list \<Rightarrow> bool \<Rightarrow> string list \<Rightarrow> Dictionary option
     \<Rightarrow> nat \<Rightarrow> PhiMatrix \<Rightarrow> PhiMatrix" where
  "token_step apply_fn p_wt topics_to_regularize use_all_classes class_ids dictionary_ptr
       token_id result =
     (let tok = token p_wt token_id;
          coefficient = coefficient_of dictionary_ptr use_all_classes class_ids tok
      in if \<not> use_all_classes \<and> \<not> is_member (class_id tok) class_ids then result
         else topic_loop apply_fn p_wt topics_to_regularize coefficient token_id result)"

definition topics_mask :: "'tc SmoothSparsePhiConfig \<Rightarrow> PhiMatrix \<Rightarrow> bool list" where
  "topics_mask conf p_wt =
     (if length (config_topic_name conf) = 0 then replicate (topic_size p_wt) True
      else is_member_vec (topic_name p_wt) (config_topic_name conf))"

definition resolve_dictionary ::
  "(string \<Rightarrow> Dictionary option) \<Rightarrow> 'tc SmoothSparsePhiConfig \<Rightarrow> Dictionary option" where
  "resolve_dictionary dictionary conf =
     (case config_dictionary_name conf of
        None \<Rightarrow> None
      | Some name \<Rightarrow> dictionary name)"

text \<open>
  \<^verbatim>\<open>RegularizePhi\<close>: the returned pair is the function's return value and the contents
  of \<^verbatim>\<open>*result\<close> after the call. The parameter \<open>dictionary\<close> is the lookup
  \<^verbatim>\<open>dictionary(name)\<close> inherited from the regularizer interface. The loops address
  \<^verbatim>\<open>result\<close> at the indices of \<^verbatim>\<open>p_wt\<close>; the two matrices are required to have the
  same indexing, and the store takes a write at every index pair.
\<close>

definition RegularizePhi ::
  "(string \<Rightarrow> Dictionary option) \<Rightarrow> 'tc SmoothSparsePhi
     \<Rightarrow> PhiMatrix \<Rightarrow> PhiMatrix \<Rightarrow> PhiMatrix \<Rightarrow> bool \<times> PhiMatrix" where
  "RegularizePhi dictionary this p_wt n_wt result =
     (let topics_to_regularize = topics_mask (config this) p_wt;
          use_all_classes = (length (config_class_id (config this)) = 0);
          dictionary_ptr = resolve_dictionary dictionary (config this)
      in (True,
          fold (token_step (transform_function this) p_wt topics_to_regularize use_all_classes
                  (config_class_id (config this)) dictionary_ptr)
               [0..<token_size p_wt] result))"

datatype exception =
    InvalidOperation string
  | CorruptedMessageException string

record RegularizerConfig =
  config_blob :: string

text \<open>
  \<^verbatim>\<open>Reconfigure\<close>: the protobuf parser \<^verbatim>\<open>ParseFromString\<close> is a parameter that answers
  \<open>None\<close> where the source's call returns false. The result pairs the outcome of the call
  (the exception thrown, or the value returned) with the regularizer after the call.
\<close>

definition Reconfigure ::
  "(string \<Rightarrow> 'tc SmoothSparsePhiConfig option) \<Rightarrow> ('tc option \<Rightarrow> ieee \<Rightarrow> ieee)
     \<Rightarrow> 'tc SmoothSparsePhi \<Rightarrow> RegularizerConfig
     \<Rightarrow> (exception + bool) \<times> 'tc SmoothSparsePhi" where
  "Reconfigure ParseFromString create this rc =
     (case ParseFromString (config_blob rc) of
        None \<Rightarrow>
          (Inl (CorruptedMessageException
                  ''Unable to parse SmoothSparsePhiConfig from RegularizerConfig.config''),
           this)
      | Some regularizer_config \<Rightarrow>
          (let this1 = this\<lparr>config := regularizer_config\<rparr>;
               this2 = this1\<lparr>transform_function :=
                          (case config_transform_config (config this1) of
                             Some tc \<Rightarrow> create (Some tc)
                           | None \<Rightarrow> create None)\<rparr>
           in (Inr True, this2)))"

section \<open>The disk generation\<close>

text \<open>
  \<^verbatim>\<open>src/artm/core/generation.cc\<close>. The identifier type \<^verbatim>\<open>boost::uuids::uuid\<close> is the type
  variable \<open>'u\<close>; \<^verbatim>\<open>boost::lexical_cast<std::string>\<close> on it is the parameter \<open>lexical_cast\<close>.
\<close>

record 'u BatchManagerTask =
  uuid :: 'u
  file_path :: string

text \<open>
  Modelled from the spec: the message type \<^verbatim>\<open>Batch\<close> (generated from the protobuf
  description, which is not among the sources) carries its own id field and per-token
  class metadata that may be absent until populated.
\<close>

record Batch =
  batch_id :: string
  batch_token :: "string list"
  batch_class_id :: "string list"

text \<open>
  Modelled from the spec: \<^verbatim>\<open>BatchHelpers::PopulateClassId\<close> (\<^verbatim>\<open>artm/core/helpers.cc\<close> is not
  among the sources) fills in any token class metadata absent from the loaded payload.
  It rewrites the class metadata and no other field; how the gaps are filled is the
  parameter \<open>fill\<close>.
\<close>

definition PopulateClassId :: "(string list \<Rightarrow> string list \<Rightarrow> string list) \<Rightarrow> Batch \<Rightarrow> Batch" where
  "PopulateClassId fill b = b\<lparr>batch_class_id := fill (batch_token b) (batch_class_id b)\<rparr>"

text \<open>The members \<^verbatim>\<open>disk_path_\<close> and \<^verbatim>\<open>generation_\<close>.\<close>

record 'u DiskGeneration =
  disk_path :: string
  generation :: "'u BatchManagerTask list"

text \<open>
  Modelled from the spec: the scanner \<^verbatim>\<open>BatchHelpers::ListAllBatches\<close>
  (\<^verbatim>\<open>artm/core/helpers.cc\<close> is not among the sources) scans a path for all persisted batch
  files and returns, for each file, a unique identifier and its path, in scan order; it
  fails if the path cannot be read. The disk is a parameter that answers, for a path,
  with a failure or with the batch files found there: an association list from
  identifiers to file paths in scan order, whose type keeps the identifiers pairwise
  distinct.
\<close>

type_synonym ('e, 'u) disk = "string \<Rightarrow> 'e + ('u, string) alist"

definition ListAllBatches :: "('e, 'u) disk \<Rightarrow> string \<Rightarrow> 'e + 'u BatchManagerTask list" where
  "ListAllBatches disk path =
     (case disk path of
        Inl e \<Rightarrow> Inl e
      | Inr files \<Rightarrow>
          Inr (map (\<lambda>(u, p). \<lparr>uuid = u, file_path = p\<rparr>) (DAList.impl_of files)))"

text \<open>
  The constructor. It has no handler for a failure of the scan. The loop pushes the
  scanned tasks one by one.
\<close>

definition DiskGeneration_new :: "('e, 'u) disk \<Rightarrow> string \<Rightarrow> 'e + 'u DiskGeneration" where
  "DiskGeneration_new disk path =
     (case ListAllBatches disk path of
        Inl e \<Rightarrow> Inl e
      | Inr batches \<Rightarrow>
          Inr \<lparr>disk_path = path,
               generation = fold (\<lambda>i g. g @ [batches ! i]) [0..<length batches] []\<rparr>)"

text \<open>
  Every operation answers with its outcome (the exception thrown, or the value returned)
  and the generation after the call.
\<close>

definition AddBatch :: "'u DiskGeneration \<Rightarrow> Batch \<Rightarrow> (exception + 'u) \<times> 'u DiskGeneration" where
  "AddBatch this b =
     (let message = ''ArtmAddBatch() is not allowed with current configuration. '';
          message = message @ ''Please, set the configuration parameter MasterComponentConfig.disk_path '';
          message = message @ ''to an empty string in order to enable ArtmAddBatch() operation. '';
          message = message @ ''Use ArtmSaveBatch() operation to save batches to disk.''
      in (Inl (InvalidOperation message), this))"

text \<open>
  The severities of glog; only \<open>FATAL\<close> ends the process. \<^verbatim>\<open>RemoveBatch\<close> also answers
  with the log after the call.
\<close>

datatype severity = INFO | WARNING | ERROR | FATAL

type_synonym glog = "(severity \<times> string) list"

definition RemoveBatch ::
  "'u DiskGeneration \<Rightarrow> 'u \<Rightarrow> glog \<Rightarrow> (exception + unit) \<times> 'u DiskGeneration \<times> glog" where
  "RemoveBatch this u lg =
     (Inr (), this, lg @ [(ERROR, ''Remove batch is not supported in disk generation.'')])"

definition batch_uuids :: "'u DiskGeneration \<Rightarrow> 'u BatchManagerTask list" where
  "batch_uuids this = generation this"

text \<open>
  \<^verbatim>\<open>batch\<close>: the decoder \<^verbatim>\<open>BatchHelpers::LoadMessage\<close> is a parameter; it answers \<open>Inl e\<close>
  where it throws, which \<^verbatim>\<open>batch\<close> does not handle.
\<close>

definition batch ::
  "(string \<Rightarrow> 'e + Batch) \<Rightarrow> ('u \<Rightarrow> string) \<Rightarrow> (string list \<Rightarrow> string list \<Rightarrow> string list)
     \<Rightarrow> 'u DiskGeneration \<Rightarrow> 'u BatchManagerTask \<Rightarrow> ('e + Batch) \<times> 'u DiskGeneration" where
  "batch LoadMessage lexical_cast fill this task =
     (case LoadMessage (file_path task) of
        Inl e \<Rightarrow> (Inl e, this)
      | Inr loaded \<Rightarrow>
          (let b1 = loaded\<lparr>batch_id := lexical_cast (uuid task)\<rparr>;
               b2 = PopulateClassId fill b1
           in (Inr b2, this)))"

text \<open>A run of \<^verbatim>\<open>batch\<close> calls, one per task of the list, each on the generation the last left.\<close>

fun batch_calls ::
  "(string \<Rightarrow> 'e + Batch) \<Rightarrow> ('u \<Rightarrow> string) \<Rightarrow> (string list \<Rightarrow> string list \<Rightarrow> string list)
     \<Rightarrow> 'u DiskGeneration \<Rightarrow> 'u BatchManagerTask list \<Rightarrow> 'u DiskGeneration" where
  "batch_calls LoadMessage lexical_cast fill this [] = this"
| "batch_calls LoadMessage lexical_cast fill this (task # tasks) =
     batch_calls LoadMessage lexical_cast fill
       (snd (batch LoadMessage lexical_cast fill this task)) tasks"

section \<open>Named conditions and sample inputs\<close>

text \<open>
  The condition of line 62 for a topic of \<^verbatim>\<open>p_wt\<close>, and the condition of line 60 that
  makes the outer loop \<^verbatim>\<open>continue\<close> at a token of \<^verbatim>\<open>p_wt\<close>.
\<close>

definition topic_selected :: "'tc SmoothSparsePhiConfig \<Rightarrow> PhiMatrix \<Rightarrow> nat \<Rightarrow> bool" where
  "topic_selected conf p_wt topic_id \<longleftrightarrow>
     topic_id < topic_size p_wt \<and> topics_mask conf p_wt ! topic_id"

definition token_skipped :: "'tc SmoothSparsePhiConfig \<Rightarrow> PhiMatrix \<Rightarrow> nat \<Rightarrow> bool" where
  "token_skipped conf p_wt token_id \<longleftrightarrow>
     token_id < token_size p_wt \<and> length (config_class_id conf) \<noteq> 0 \<and>
     \<not> is_member (class_id (token p_wt token_id)) (config_class_id conf)"

definition token_passes :: "'tc SmoothSparsePhiConfig \<Rightarrow> PhiMatrix \<Rightarrow> nat \<Rightarrow> bool" where
  "token_passes conf p_wt token_id \<longleftrightarrow>
     token_id < token_size p_wt \<and>
     (length (config_class_id conf) = 0 \<or>
      is_member (class_id (token p_wt token_id)) (config_class_id conf))"

text \<open>
  A matrix with two tokens and the four topics t0 to t3, every cell 5; one of the same
  shape with every cell the positive infinity; a result matrix of the same shape, every
  cell 7; and an \<^verbatim>\<open>n_wt\<close> of the same shape, every cell 11.
\<close>

definition sample_tokens :: "Token list" where
  "sample_tokens = [\<lparr>keyword = ''X'', class_id = ''c1''\<rparr>, \<lparr>keyword = ''Y'', class_id = ''c2''\<rparr>]"

definition sample_p_wt :: PhiMatrix where
  "sample_p_wt =
     \<lparr>tokens = sample_tokens, topic_name = [''t0'', ''t1'', ''t2'', ''t3''], cell = (\<lambda>i j. Finite 5)\<rparr>"

definition sample_p_inf :: PhiMatrix where
  "sample_p_inf =
     \<lparr>tokens = sample_tokens, topic_name = [''t0'', ''t1'', ''t2'', ''t3''], cell = (\<lambda>i j. PInf)\<rparr>"

definition sample_n_wt :: PhiMatrix where
  "sample_n_wt =
     \<lparr>tokens = sample_tokens, topic_name = [''t0'', ''t1'', ''t2'', ''t3''], cell = (\<lambda>i j. Finite 11)\<rparr>"

definition sample_result :: PhiMatrix where
  "sample_result =
     \<lparr>tokens = sample_tokens, topic_name = [''t0'', ''t1'', ''t2'', ''t3''], cell = (\<lambda>i j. Finite 7)\<rparr>"

text \<open>
  A regularizer restricted to the topics t1 and t3 and to the class c1, without a
  dictionary; and one for all topics and classes that names the dictionary ``dict''.
  Both apply the identity.
\<close>

definition sample_filtered :: "unit SmoothSparsePhi" where
  "sample_filtered =
     \<lparr>config = \<lparr>config_topic_name = [''t1'', ''t3''], config_class_id = [''c1''],
                 config_dictionary_name = None, config_transform_config = None\<rparr>,
      transform_function = (\<lambda>x. x)\<rparr>"

definition sample_with_dictionary :: "unit SmoothSparsePhi" where
  "sample_with_dictionary =
     \<lparr>config = \<lparr>config_topic_name = [], config_class_id = [],
                 config_dictionary_name = Some ''dict'', config_transform_config = None\<rparr>,
      transform_function = (\<lambda>x. x)\<rparr>"

text \<open>
  A lookup that resolves ``dict'' to a dictionary whose only entry is for the keyword Y,
  and a lookup that resolves no name.
\<close>

definition sample_dict :: Dictionary where
  "sample_dict tok = (if keyword tok = ''Y'' then Some \<lparr>token_value = Finite 2\<rparr> else None)"

definition sample_dictionaries :: "string \<Rightarrow> Dictionary option" where
  "sample_dictionaries name = (if name = ''dict'' then Some sample_dict else None)"

definition no_dictionaries :: "string \<Rightarrow> Dictionary option" where
  "no_dictionaries name = None"

text \<open>
  A parser that accepts the blob ``ok'' only, and a transform factory: the constant 1
  without a transform configuration, the identity with one.
\<close>

definition sample_parse :: "string \<Rightarrow> unit SmoothSparsePhiConfig option" where
  "sample_parse blob =
     (if blob = ''ok''
      then Some \<lparr>config_topic_name = [''t0''], config_class_id = [],
                 config_dictionary_name = None, config_transform_config = Some ()\<rparr>
      else None)"

definition sample_create :: "unit option \<Rightarrow> ieee \<Rightarrow> ieee" where
  "sample_create tc = (case tc of None \<Rightarrow> (\<lambda>x. Finite 1) | Some u \<Rightarrow> (\<lambda>x. x))"

text \<open>
  A disk that holds the batch files of A and B under ``/d'', a generation holding their
  tasks, and a decoder whose payload for ``/d/a.bin'' reports the stale id ``old''.
\<close>

definition sample_disk :: "(string, nat) disk" where
  "sample_disk path =
     (if path = ''/d''
      then Inr (DAList.Alist [(1, ''/d/a.bin''), (2, ''/d/b.bin'')])
      else Inl ''cannot read'')"

definition sample_generation :: "nat DiskGeneration" where
  "sample_generation =
     \<lparr>disk_path = ''/d'',
      generation = [\<lparr>uuid = 1, file_path = ''/d/a.bin''\<rparr>, \<lparr>uuid = 2, file_path = ''/d/b.bin''\<rparr>]\<rparr>"

definition sample_load :: "string \<Rightarrow> string + Batch" where
  "sample_load path =
     (if path = ''/d/a.bin''
      then Inr \<lparr>batch_id = ''old'', batch_token = [''w''], batch_class_id = []\<rparr>
      else Inl ''missing'')"

definition sample_cast :: "nat \<Rightarrow> string" where
  "sample_cast u = (if u = 1 then ''A'' else if u = 2 then ''B'' else ''?'')"

definition sample_fill :: "string list \<Rightarrow> string list \<Rightarrow> string list" where
  "sample_fill toks cls = (if length cls = length toks then cls else map (\<lambda>t. ''@default_class'') toks)"

section \<open>Facts about the floating-point operations\<close>

text \<open>
  A magnitude that is an integer multiple of the unit in the last place, with its
  exponent inside the normal range, is rounded to itself.
\<close>

lemma round_even_of_int: "round_even (of_int n) = n"
  by (simp add: round_even_def)

lemma fround_exact:
  assumes m: "0 < m"
    and e: "\<lfloor>log 2 m\<rfloor> = e"
    and lo: "1 - emax \<le> e"
    and hi: "e \<le> emax"
    and n: "m * 2 powr of_int (int p - 1 - e) = of_int n"
  shows "fround p emax neg m = Finite (if neg then - m else m)"
proof -
  let ?q = "2 powr of_int (e - (int p - 1)) :: real"
  have q: "m / ?q = of_int n"
  proof -
    have "(1 :: real) / ?q = 2 powr of_int (int p - 1 - e)"
      by (simp add: powr_minus [symmetric] divide_inverse)
    then have "m / ?q = m * 2 powr of_int (int p - 1 - e)"
      by (simp add: divide_inverse)
    with n show ?thesis by simp
  qed
  have y: "of_int (round_even (m / ?q)) * ?q = m"
  proof -
    have "of_int (round_even (m / ?q)) * ?q = (m / ?q) * ?q"
      by (simp only: q round_even_of_int)
    then show ?thesis by simp
  qed
  have "log 2 m < of_int e + 1"
    using e by linarith
  then have "m < 2 powr (of_int e + 1)"
    using m by (simp add: log_less_iff)
  also have "\<dots> \<le> 2 powr of_int (emax + 1)"
    using hi by simp
  finally have small: "\<not> 2 powr of_int (emax + 1) \<le> m"
    by simp
  have emax: "max \<lfloor>log 2 m\<rfloor> (1 - emax) = e"
    using e lo by simp
  show ?thesis
    unfolding fround_def Let_def emax y
    using m small by simp
qed

text \<open>The exponents of 5 and 10, and their roundings in both formats.\<close>

lemma floor_log2:
  assumes "0 < m" "2 powr of_int e \<le> m" "m < 2 powr (of_int e + 1)"
  shows "\<lfloor>log 2 m\<rfloor> = e"
proof (rule floor_unique)
  show "of_int e \<le> log 2 m"
    using assms by (simp add: le_log_iff)
  show "log 2 m < of_int e + 1"
    using assms by (simp add: log_less_iff)
qed

lemma floor_log2_5: "\<lfloor>log 2 (5 :: real)\<rfloor> = 2"
  by (rule floor_log2) (simp_all add: powr_numeral)

lemma floor_log2_10: "\<lfloor>log 2 (10 :: real)\<rfloor> = 3"
  by (rule floor_log2) (simp_all add: powr_numeral)

lemma round_5: "round_double False 5 = Finite 5" "round_float False 5 = Finite 5"
  unfolding round_double_def round_float_def
  using fround_exact [of 5 2 1023 53 "5 * 2 ^ 50" False]
        fround_exact [of 5 2 127 24 "5 * 2 ^ 21" False]
  by (simp_all add: floor_log2_5 powr_numeral)

lemma round_10: "round_double False 10 = Finite 10" "round_float False 10 = Finite 10"
  unfolding round_double_def round_float_def
  using fround_exact [of 10 3 1023 53 "10 * 2 ^ 49" False]
        fround_exact [of 10 3 127 24 "10 * 2 ^ 20" False]
  by (simp_all add: floor_log2_10 powr_numeral)

text \<open>Products as line 64 stores them.\<close>

lemma mul_examples:
  "float_of_double (dmul (Finite 1) (Finite 5)) = Finite 5"
  "float_of_double (dmul (Finite 2) (Finite 5)) = Finite 10"
  "float_of_double (dmul (Finite 0) PInf) = NaN"
  "float_of_double (dmul (Finite 0) (Finite (-5))) = NegZero"
  by (simp_all add: dmul_def float_of_double_def round_5 round_10)

text \<open>A zero times a finite value is stored as a zero; a zero times an infinity or a NaN as NaN.\<close>

lemma zero_times_finite:
  "is_zero a \<Longrightarrow> is_finite v \<Longrightarrow> is_zero (float_of_double (dmul a v))"
  by (cases a; cases v) (simp_all add: dmul_def float_of_double_def)

lemma zero_times_not_finite:
  "is_zero a \<Longrightarrow> \<not> is_finite v \<Longrightarrow> float_of_double (dmul a v) = NaN"
  by (cases a; cases v) (simp_all add: dmul_def float_of_double_def)


section \<open>What the loops of RegularizePhi write\<close>

text \<open>
  One \<^verbatim>\<open>set\<close> changes one cell; the inner loop changes the cells of one row at the topics
  its test accepts; the outer loop does so for every token it does not skip.
\<close>

lemma set_cell_fields:
  "tokens (set_cell m i j v) = tokens m"
  "topic_name (set_cell m i j v) = topic_name m"
  "cell (set_cell m i j v) a b = (if a = i \<and> b = j then v else cell m a b)"
  by (simp_all add: set_cell_def)

lemma topic_fold_fields:
  "tokens (fold (\<lambda>j r. if P j then set_cell r i j (v j) else r) [0..<n] r0) = tokens r0 \<and>
   topic_name (fold (\<lambda>j r. if P j then set_cell r i j (v j) else r) [0..<n] r0) = topic_name r0 \<and>
   cell (fold (\<lambda>j r. if P j then set_cell r i j (v j) else r) [0..<n] r0) a b =
     (if a = i \<and> b < n \<and> P b then v b else cell r0 a b)"
proof (induction n)
  case 0
  show ?case by simp
next
  case (Suc n)
  then show ?case
    by (auto simp: set_cell_fields less_Suc_eq)
qed

lemma topic_loop_fields:
  "tokens (topic_loop f p tps c i r) = tokens r"
  "topic_name (topic_loop f p tps c i r) = topic_name r"
  "cell (topic_loop f p tps c i r) a b =
     (if a = i \<and> b < topic_size p \<and> tps ! b
      then float_of_double (dmul c (f (get p i b))) else cell r a b)"
  unfolding topic_loop_def Let_def
  using topic_fold_fields [of "\<lambda>j. tps ! j" i "\<lambda>j. float_of_double (dmul c (f (get p i j)))"
          "topic_size p" r a b]
  by simp_all


lemma token_step_fields:
  "tokens (token_step f p tps ua cids d i r) = tokens r"
  "topic_name (token_step f p tps ua cids d i r) = topic_name r"
  "cell (token_step f p tps ua cids d i r) a b =
     (if a = i \<and> (ua \<or> is_member (class_id (token p i)) cids) \<and> b < topic_size p \<and> tps ! b
      then float_of_double (dmul (coefficient_of d ua cids (token p i)) (f (get p i b)))
      else cell r a b)"
  by (auto simp: token_step_def Let_def topic_loop_fields)

lemma token_fold_fields:
  "tokens (fold (token_step f p tps ua cids d) [0..<n] r0) = tokens r0 \<and>
   topic_name (fold (token_step f p tps ua cids d) [0..<n] r0) = topic_name r0 \<and>
   cell (fold (token_step f p tps ua cids d) [0..<n] r0) a b =
     (if a < n \<and> (ua \<or> is_member (class_id (token p a)) cids) \<and> b < topic_size p \<and> tps ! b
      then float_of_double (dmul (coefficient_of d ua cids (token p a)) (f (get p a b)))
      else cell r0 a b)"
proof (induction n)
  case 0
  show ?case by simp
next
  case (Suc n)
  then show ?case
    by (auto simp: token_step_fields less_Suc_eq)
qed


text \<open>
  The mask has one entry per topic of \<^verbatim>\<open>p_wt\<close>, so the loop of line 61 indexes it in
  range; its entry at a topic, in terms of the configured topic names.
\<close>

lemma topics_mask_length:
  "length (topics_mask conf p) = topic_size p"
  by (simp add: topics_mask_def is_member_vec_def topic_size_def)

lemma topics_mask_nth:
  "b < topic_size p \<Longrightarrow>
   topics_mask conf p ! b =
     (config_topic_name conf = [] \<or> is_member (topic_name p ! b) (config_topic_name conf))"
  by (simp add: topics_mask_def is_member_vec_def topic_size_def)

text \<open>
  The whole call: it returns true, keeps the metadata of \<^verbatim>\<open>result\<close>, and every cell is
  either the product written by line 64 or the cell's prior value.
\<close>

lemma RegularizePhi_fields:
  "fst (RegularizePhi dictionary this p_wt n_wt result) = True"
  "tokens (snd (RegularizePhi dictionary this p_wt n_wt result)) = tokens result"
  "topic_name (snd (RegularizePhi dictionary this p_wt n_wt result)) = topic_name result"
  "cell (snd (RegularizePhi dictionary this p_wt n_wt result)) a b =
     (if token_passes (config this) p_wt a \<and> topic_selected (config this) p_wt b
      then float_of_double
             (dmul (coefficient_of (resolve_dictionary dictionary (config this))
                      (length (config_class_id (config this)) = 0)
                      (config_class_id (config this)) (token p_wt a))
                   (transform_function this (get p_wt a b)))
      else cell result a b)"
  by (auto simp: RegularizePhi_def Let_def token_fold_fields token_passes_def
        topic_selected_def)



lemma coefficient_no_entry:
  "use_all_classes \<or> is_member (class_id tok) class_ids \<Longrightarrow> d tok = None \<Longrightarrow>
   coefficient_of (Some d) use_all_classes class_ids tok = Finite 0"
  by (simp add: coefficient_of_def)

lemma coefficient_no_dictionary:
  "coefficient_of None use_all_classes class_ids tok = Finite 1"
  by (simp add: coefficient_of_def)

section \<open>Claims about the regularizer\<close>

text \<open>
  Claim C1, amended. When a dictionary is configured and resolved, a token that passes
  the class filter (or meets no class filter) and has no entry in the dictionary gets
  the coefficient 0, and the call leaves a zero in the token's cell at every topic that
  the topic mask selects and at which the transform of the cell of \<^verbatim>\<open>p_wt\<close> is finite.
\<close>

theorem dictionary_suppression_finite:
  assumes "config_dictionary_name (config this) = Some name"
    and "dictionary name = Some d"
    and "token_passes (config this) p_wt token_id"
    and "d (token p_wt token_id) = None"
    and "topic_selected (config this) p_wt topic_id"
    and "is_finite (transform_function this (get p_wt token_id topic_id))"
  shows "coefficient_of (resolve_dictionary dictionary (config this))
           (length (config_class_id (config this)) = 0) (config_class_id (config this))
           (token p_wt token_id) = Finite 0 \<and>
         is_zero (get (snd (RegularizePhi dictionary this p_wt n_wt result)) token_id topic_id)"
proof -
  have ptr: "resolve_dictionary dictionary (config this) = Some d"
    using assms(1,2) by (simp add: resolve_dictionary_def)
  have "length (config_class_id (config this)) = 0 \<or>
        is_member (class_id (token p_wt token_id)) (config_class_id (config this))"
    using assms(3) by (simp add: token_passes_def)
  then have zero: "coefficient_of (Some d) (length (config_class_id (config this)) = 0)
                     (config_class_id (config this)) (token p_wt token_id) = Finite 0"
    using assms(4) by (rule coefficient_no_entry)
  have "is_zero (float_of_double
                   (dmul (Finite 0) (transform_function this (get p_wt token_id topic_id))))"
    using assms(6) by (simp add: zero_times_finite)
  then show ?thesis
    using assms(3,5) zero by (simp add: get_def RegularizePhi_fields ptr)
qed

text \<open>
  At the sample inputs the token X has no entry in the resolved dictionary; its cell at
  topic t2 is the finite 5 in \<^verbatim>\<open>p_wt\<close>, 7 in \<^verbatim>\<open>result\<close> before the call and the positive
  zero after it.
\<close>

theorem dictionary_suppression_finite_witness:
  "config_dictionary_name (config sample_with_dictionary) = Some ''dict'' \<and>
   sample_dictionaries ''dict'' = Some sample_dict \<and>
   token_passes (config sample_with_dictionary) sample_p_wt 0 \<and>
   sample_dict (token sample_p_wt 0) = None \<and>
   topic_selected (config sample_with_dictionary) sample_p_wt 2 \<and>
   is_finite (transform_function sample_with_dictionary (get sample_p_wt 0 2)) \<and>
   get sample_p_wt 0 2 = Finite 5 \<and>
   get sample_result 0 2 = Finite 7 \<and>
   is_zero (get (snd (RegularizePhi sample_dictionaries sample_with_dictionary
                        sample_p_wt sample_n_wt sample_result)) 0 2)"
proof -
  have h1: "config_dictionary_name (config sample_with_dictionary) = Some ''dict''"
    by (simp add: sample_with_dictionary_def)
  have h2: "sample_dictionaries ''dict'' = Some sample_dict"
    by (simp add: sample_dictionaries_def)
  have h3: "token_passes (config sample_with_dictionary) sample_p_wt 0"
    by (simp add: token_passes_def sample_with_dictionary_def sample_p_wt_def
          sample_tokens_def token_size_def)
  have h4: "sample_dict (token sample_p_wt 0) = None"
    by (simp add: sample_dict_def token_def sample_p_wt_def sample_tokens_def)
  have h5: "topic_selected (config sample_with_dictionary) sample_p_wt 2"
    by (simp add: topic_selected_def topics_mask_def sample_with_dictionary_def
          sample_p_wt_def topic_size_def)
  have h6: "is_finite (transform_function sample_with_dictionary (get sample_p_wt 0 2))"
    by (simp add: sample_with_dictionary_def get_def sample_p_wt_def)
  have vals: "get sample_p_wt 0 2 = Finite 5" "get sample_result 0 2 = Finite 7"
    by (simp_all add: get_def sample_p_wt_def sample_result_def)
  have "is_zero (get (snd (RegularizePhi sample_dictionaries sample_with_dictionary
                             sample_p_wt sample_n_wt sample_result)) 0 2)"
    using dictionary_suppression_finite
            [where dictionary = sample_dictionaries and d = sample_dict
               and n_wt = sample_n_wt and result = sample_result, OF h1 h2 h3 h4 h5 h6]
    by blast
  with h1 h2 h3 h4 h5 h6 vals show ?thesis
    by (intro conjI)
qed

text \<open>
  Claim C1 as first stated, with 0 in the cell whatever \<^verbatim>\<open>p_wt\<close> holds, fails where
  \<^verbatim>\<open>p_wt\<close> holds an infinity: the token X has no entry in the resolved dictionary and
  passes the class filter, the topic t2 is selected, and line 64 stores the product of
  the coefficient 0 and the infinity, which is NaN and not a zero.
\<close>

theorem dictionary_suppression_counterexample:
  "config_dictionary_name (config sample_with_dictionary) = Some ''dict'' \<and>
   sample_dictionaries ''dict'' = Some sample_dict \<and>
   token_passes (config sample_with_dictionary) sample_p_inf 0 \<and>
   sample_dict (token sample_p_inf 0) = None \<and>
   topic_selected (config sample_with_dictionary) sample_p_inf 2 \<and>
   get sample_p_inf 0 2 = PInf \<and>
   get (snd (RegularizePhi sample_dictionaries sample_with_dictionary
               sample_p_inf sample_n_wt sample_result)) 0 2 = NaN \<and>
   \<not> is_zero (get (snd (RegularizePhi sample_dictionaries sample_with_dictionary
                          sample_p_inf sample_n_wt sample_result)) 0 2)"
proof -
  have h1: "config_dictionary_name (config sample_with_dictionary) = Some ''dict''"
    by (simp add: sample_with_dictionary_def)
  have h2: "sample_dictionaries ''dict'' = Some sample_dict"
    by (simp add: sample_dictionaries_def)
  have h3: "token_passes (config sample_with_dictionary) sample_p_inf 0"
    by (simp add: token_passes_def sample_with_dictionary_def sample_p_inf_def
          sample_tokens_def token_size_def)
  have h4: "sample_dict (token sample_p_inf 0) = None"
    by (simp add: sample_dict_def token_def sample_p_inf_def sample_tokens_def)
  have h5: "topic_selected (config sample_with_dictionary) sample_p_inf 2"
    by (simp add: topic_selected_def topics_mask_def sample_with_dictionary_def
          sample_p_inf_def topic_size_def)
  have inf: "get sample_p_inf 0 2 = PInf"
    by (simp add: get_def sample_p_inf_def)
  have ptr: "resolve_dictionary sample_dictionaries (config sample_with_dictionary) =
             Some sample_dict"
    using h1 h2 by (simp add: resolve_dictionary_def)
  have co: "coefficient_of (Some sample_dict)
              (length (config_class_id (config sample_with_dictionary)) = 0)
              (config_class_id (config sample_with_dictionary)) (token sample_p_inf 0) =
            Finite 0"
    using h4 by (simp add: coefficient_of_def sample_with_dictionary_def)
  have f: "transform_function sample_with_dictionary (get sample_p_inf 0 2) = PInf"
    by (simp add: sample_with_dictionary_def inf)
  have stored: "get (snd (RegularizePhi sample_dictionaries sample_with_dictionary
                            sample_p_inf sample_n_wt sample_result)) 0 2 = NaN"
    unfolding get_def [of "snd _"]
    by (simp only: RegularizePhi_fields h3 h5 ptr co f simp_thms if_True)
       (simp add: dmul_def float_of_double_def)
  then have "\<not> is_zero (get (snd (RegularizePhi sample_dictionaries sample_with_dictionary
                                   sample_p_inf sample_n_wt sample_result)) 0 2)"
    by simp
  with h1 h2 h3 h4 h5 inf stored show ?thesis
    by (intro conjI)
qed

text \<open>
  A topic is selected when it is a topic of \<^verbatim>\<open>p_wt\<close> and either no topic name is
  configured or its name is among the configured ones; a skipped token does not pass.
\<close>

lemma topic_selected_names:
  "topic_selected conf p b \<longleftrightarrow>
     b < topic_size p \<and>
     (config_topic_name conf = [] \<or> is_member (topic_name p ! b) (config_topic_name conf))"
  by (auto simp: topic_selected_def topics_mask_nth)

lemma skipped_not_passes:
  "token_skipped conf p_wt token_id \<Longrightarrow> \<not> token_passes conf p_wt token_id"
  by (simp add: token_skipped_def token_passes_def)

text \<open>
  Claim C5. Every cell of \<^verbatim>\<open>result\<close> whose topic is not selected by the topic mask, and
  every cell in the row of a token that the class filter skips, holds after the call
  the value it held before.
\<close>

theorem RegularizePhi_frame:
  "(\<not> topic_selected (config this) p_wt topic_id \<longrightarrow>
      get (snd (RegularizePhi dictionary this p_wt n_wt result)) token_id topic_id =
      get result token_id topic_id) \<and>
   (token_skipped (config this) p_wt token_id \<longrightarrow>
      get (snd (RegularizePhi dictionary this p_wt n_wt result)) token_id topic_id =
      get result token_id topic_id)"
  by (simp add: get_def RegularizePhi_fields skipped_not_passes)

text \<open>With the topics t0 to t3 and the configured names t1 and t3, the mask selects 1 and 3.\<close>

lemma sample_filtered_selected:
  "topic_selected (config sample_filtered) sample_p_wt topic_id \<longleftrightarrow> topic_id = 1 \<or> topic_id = 3"
proof (cases "topic_id < topic_size sample_p_wt")
  case True
  then have "topic_id \<in> {0, 1, 2, 3}"
    by (auto simp: topic_size_def sample_p_wt_def)
  then show ?thesis
    using True
    by (auto simp: topic_selected_def topics_mask_nth)
       (simp_all add: sample_filtered_def sample_p_wt_def)
next
  case False
  then show ?thesis
    by (auto simp: topic_selected_def topic_size_def sample_p_wt_def)
qed

text \<open>
  The sample with the topics t0 to t3 and the configured names t1 and t3: in the row of
  the token X (class c1, which passes) the columns t0 and t2 keep the prior 7 and the
  columns t1 and t3 receive 5; the row of the token Y (class c2, skipped) keeps 7.
\<close>

theorem RegularizePhi_frame_witness:
  "\<not> topic_selected (config sample_filtered) sample_p_wt 0 \<and>
   \<not> topic_selected (config sample_filtered) sample_p_wt 2 \<and>
   token_skipped (config sample_filtered) sample_p_wt 1 \<and>
   map (get (snd (RegularizePhi no_dictionaries sample_filtered sample_p_wt sample_n_wt
                    sample_result)) 0) [0, 1, 2, 3] =
     [Finite 7, Finite 5, Finite 7, Finite 5] \<and>
   map (get (snd (RegularizePhi no_dictionaries sample_filtered sample_p_wt sample_n_wt
                    sample_result)) 1) [0, 1, 2, 3] =
     [Finite 7, Finite 7, Finite 7, Finite 7]"
proof -
  let ?r = "snd (RegularizePhi no_dictionaries sample_filtered sample_p_wt sample_n_wt
                   sample_result)"
  have n0: "\<not> topic_selected (config sample_filtered) sample_p_wt 0"
    and n2: "\<not> topic_selected (config sample_filtered) sample_p_wt 2"
    by (simp_all add: sample_filtered_selected)
  have sk: "token_skipped (config sample_filtered) sample_p_wt 1"
    by (simp add: token_skipped_def sample_filtered_def sample_p_wt_def sample_tokens_def
          token_size_def token_def)
  have prior: "get sample_result i j = Finite 7" for i j
    by (simp add: get_def sample_result_def)
  have c00: "get ?r 0 0 = Finite 7"
    using RegularizePhi_frame [of sample_filtered sample_p_wt 0 no_dictionaries sample_n_wt
            sample_result 0] n0 prior
    by simp
  have c02: "get ?r 0 2 = Finite 7"
    using RegularizePhi_frame [of sample_filtered sample_p_wt 2 no_dictionaries sample_n_wt
            sample_result 0] n2 prior
    by simp
  have row1: "get ?r 1 j = Finite 7" for j
    using RegularizePhi_frame [of sample_filtered sample_p_wt j no_dictionaries sample_n_wt
            sample_result 1] sk prior
    by simp
  have ps: "token_passes (config sample_filtered) sample_p_wt 0"
    by (simp add: token_passes_def sample_filtered_def sample_p_wt_def sample_tokens_def
          token_size_def token_def)
  have co: "coefficient_of (resolve_dictionary no_dictionaries (config sample_filtered)) u cs t =
            Finite 1"
    for u cs t
    by (simp add: resolve_dictionary_def sample_filtered_def coefficient_of_def)
  have written: "get ?r 0 1 = Finite 5" "get ?r 0 3 = Finite 5"
    by (simp_all add: get_def RegularizePhi_fields ps sample_filtered_selected co)
       (simp_all add: sample_filtered_def sample_p_wt_def mul_examples)
  show ?thesis
    using n0 n2 sk c00 c02 row1 written by simp
qed


text \<open>The matrix after the call, as an update of the matrix before it.\<close>

lemma RegularizePhi_result:
  "snd (RegularizePhi dictionary this p_wt n_wt result) =
     result\<lparr>cell := (\<lambda>a b.
        if token_passes (config this) p_wt a \<and> topic_selected (config this) p_wt b
        then float_of_double
               (dmul (coefficient_of (resolve_dictionary dictionary (config this))
                        (length (config_class_id (config this)) = 0)
                        (config_class_id (config this)) (token p_wt a))
                     (transform_function this (get p_wt a b)))
        else cell result a b)\<rparr>"
proof (rule PhiMatrix.equality)
  show "cell (snd (RegularizePhi dictionary this p_wt n_wt result)) =
        cell (result\<lparr>cell := (\<lambda>a b.
          if token_passes (config this) p_wt a \<and> topic_selected (config this) p_wt b
          then float_of_double
                 (dmul (coefficient_of (resolve_dictionary dictionary (config this))
                          (length (config_class_id (config this)) = 0)
                          (config_class_id (config this)) (token p_wt a))
                       (transform_function this (get p_wt a b)))
          else cell result a b)\<rparr>)"
    by (intro ext) (simp add: RegularizePhi_fields)
qed (simp_all add: RegularizePhi_fields)

text \<open>
  Claim C8. The call returns true on every input; the contents it leaves in \<^verbatim>\<open>result\<close>
  are determined by the configuration, the dictionaries, \<^verbatim>\<open>p_wt\<close> and the contents of
  \<^verbatim>\<open>result\<close> before the call, so two calls from the same result state leave identical
  contents; and a repeated call on the matrix that a first call produced leaves it as
  it is.
\<close>

theorem RegularizePhi_deterministic:
  "fst (RegularizePhi dictionary this p_wt n_wt result) = True \<and>
   (cell result1 = cell result2 \<longrightarrow>
      cell (snd (RegularizePhi dictionary this p_wt n_wt result1)) =
      cell (snd (RegularizePhi dictionary this p_wt n_wt result2))) \<and>
   (result1 = result2 \<longrightarrow>
      RegularizePhi dictionary this p_wt n_wt result1 =
      RegularizePhi dictionary this p_wt n_wt result2) \<and>
   snd (RegularizePhi dictionary this p_wt n_wt
          (snd (RegularizePhi dictionary this p_wt n_wt result))) =
   snd (RegularizePhi dictionary this p_wt n_wt result)"
proof -
  have ret: "fst (RegularizePhi dictionary this p_wt n_wt result) = True"
    by (simp add: RegularizePhi_fields)
  have cells: "cell (snd (RegularizePhi dictionary this p_wt n_wt result1)) =
               cell (snd (RegularizePhi dictionary this p_wt n_wt result2))"
    if "cell result1 = cell result2"
    using that by (intro ext) (simp add: RegularizePhi_fields)
  have again: "snd (RegularizePhi dictionary this p_wt n_wt
                      (snd (RegularizePhi dictionary this p_wt n_wt result))) =
               snd (RegularizePhi dictionary this p_wt n_wt result)"
  proof (rule PhiMatrix.equality)
    show "cell (snd (RegularizePhi dictionary this p_wt n_wt
                       (snd (RegularizePhi dictionary this p_wt n_wt result)))) =
          cell (snd (RegularizePhi dictionary this p_wt n_wt result))"
      by (intro ext) (simp add: RegularizePhi_fields)
  qed (simp_all add: RegularizePhi_fields)
  show ?thesis
    using ret cells again by simp
qed

text \<open>
  Two result matrices with the same cells (their metadata differ) end with the same
  cells; the row of the token Y is 2 times 5 at every topic.
\<close>

theorem RegularizePhi_deterministic_witness:
  "cell sample_result = cell (sample_result\<lparr>topic_name := []\<rparr>) \<and>
   fst (RegularizePhi sample_dictionaries sample_with_dictionary sample_p_wt sample_n_wt
          sample_result) = True \<and>
   cell (snd (RegularizePhi sample_dictionaries sample_with_dictionary sample_p_wt sample_n_wt
                sample_result)) =
   cell (snd (RegularizePhi sample_dictionaries sample_with_dictionary sample_p_wt sample_n_wt
                (sample_result\<lparr>topic_name := []\<rparr>))) \<and>
   RegularizePhi sample_dictionaries sample_with_dictionary sample_p_wt sample_n_wt sample_result =
   RegularizePhi sample_dictionaries sample_with_dictionary sample_p_wt sample_n_wt sample_result \<and>
   map (get (snd (RegularizePhi sample_dictionaries sample_with_dictionary sample_p_wt
                    sample_n_wt sample_result)) 1) [0, 1, 2, 3] =
     [Finite 10, Finite 10, Finite 10, Finite 10]"
proof -
  have same: "cell sample_result = cell (sample_result\<lparr>topic_name := []\<rparr>)"
    by simp
  have ps: "token_passes (config sample_with_dictionary) sample_p_wt 1"
    by (simp add: token_passes_def sample_with_dictionary_def sample_p_wt_def
          sample_tokens_def token_size_def)
  have sel: "topic_selected (config sample_with_dictionary) sample_p_wt j" if "j < 4" for j
    using that
    by (simp add: topic_selected_names sample_with_dictionary_def sample_p_wt_def
          topic_size_def)
  have co: "coefficient_of (resolve_dictionary sample_dictionaries (config sample_with_dictionary))
              (length (config_class_id (config sample_with_dictionary)) = 0)
              (config_class_id (config sample_with_dictionary)) (token sample_p_wt 1) =
            Finite 2"
    by (simp add: resolve_dictionary_def sample_with_dictionary_def sample_dictionaries_def
          coefficient_of_def sample_dict_def token_def sample_p_wt_def sample_tokens_def)
  have vals: "get (snd (RegularizePhi sample_dictionaries sample_with_dictionary sample_p_wt
                          sample_n_wt sample_result)) 1 j = Finite 10" if "j < 4" for j
  proof -
    have "transform_function sample_with_dictionary (get sample_p_wt 1 j) = Finite 5"
      by (simp add: sample_with_dictionary_def sample_p_wt_def get_def)
    then show ?thesis
      unfolding get_def [of "snd _"]
      by (simp only: RegularizePhi_fields ps sel [OF that] co simp_thms if_True mul_examples)
  qed
  note inst = RegularizePhi_deterministic
            [of sample_dictionaries sample_with_dictionary sample_p_wt sample_n_wt
                sample_result sample_result "sample_result\<lparr>topic_name := []\<rparr>"]
  from inst have ret: "fst (RegularizePhi sample_dictionaries sample_with_dictionary
                              sample_p_wt sample_n_wt sample_result) = True"
    by blast
  from inst same
  have cells: "cell (snd (RegularizePhi sample_dictionaries sample_with_dictionary sample_p_wt
                            sample_n_wt sample_result)) =
               cell (snd (RegularizePhi sample_dictionaries sample_with_dictionary sample_p_wt
                            sample_n_wt (sample_result\<lparr>topic_name := []\<rparr>)))"
    by blast
  have row: "map (get (snd (RegularizePhi sample_dictionaries sample_with_dictionary
                              sample_p_wt sample_n_wt sample_result)) 1) [0, 1, 2, 3] =
             [Finite 10, Finite 10, Finite 10, Finite 10]"
    using vals [of 0] vals [of 1] vals [of 2] vals [of 3] by simp
  from same ret cells row show ?thesis
    by (intro conjI refl)
qed

text \<open>
  Claim C9. The return value and the contents of \<^verbatim>\<open>result\<close> after the call are the same
  for any two values of the argument \<^verbatim>\<open>n_wt\<close>.
\<close>

theorem RegularizePhi_ignores_n_wt:
  "RegularizePhi dictionary this p_wt n_wt1 result =
   RegularizePhi dictionary this p_wt n_wt2 result"
  by (simp add: RegularizePhi_def)

text \<open>
  Claim C10. When a dictionary name is configured and the lookup resolves it to no
  dictionary, the call does what it does with no dictionary name configured: it returns
  true, every token has the coefficient 1, and the cell of a token that passes the class
  filter, at a selected topic, receives the product of 1 and the transform of the cell of
  \<^verbatim>\<open>p_wt\<close>, as a \<^verbatim>\<open>float\<close>.
\<close>

theorem unresolved_dictionary_is_neutral:
  assumes "config_dictionary_name (config this) = Some name"
    and "dictionary name = None"
  shows "RegularizePhi dictionary this p_wt n_wt result =
         RegularizePhi dictionary
           (this\<lparr>config := (config this)\<lparr>config_dictionary_name := None\<rparr>\<rparr>)
           p_wt n_wt result \<and>
         fst (RegularizePhi dictionary this p_wt n_wt result) = True \<and>
         coefficient_of (resolve_dictionary dictionary (config this))
           (length (config_class_id (config this)) = 0) (config_class_id (config this))
           (token p_wt token_id) = Finite 1 \<and>
         (token_passes (config this) p_wt token_id \<and>
          topic_selected (config this) p_wt topic_id \<longrightarrow>
            get (snd (RegularizePhi dictionary this p_wt n_wt result)) token_id topic_id =
            float_of_double
              (dmul (Finite 1) (transform_function this (get p_wt token_id topic_id))))"
proof -
  have ptr: "resolve_dictionary dictionary (config this) = None"
    using assms by (simp add: resolve_dictionary_def)
  have same: "RegularizePhi dictionary this p_wt n_wt result =
              RegularizePhi dictionary
                (this\<lparr>config := (config this)\<lparr>config_dictionary_name := None\<rparr>\<rparr>)
                p_wt n_wt result"
    using ptr by (simp add: RegularizePhi_def resolve_dictionary_def topics_mask_def)
  have rest: "fst (RegularizePhi dictionary this p_wt n_wt result) = True \<and>
         coefficient_of (resolve_dictionary dictionary (config this))
           (length (config_class_id (config this)) = 0) (config_class_id (config this))
           (token p_wt token_id) = Finite 1 \<and>
         (token_passes (config this) p_wt token_id \<and>
          topic_selected (config this) p_wt topic_id \<longrightarrow>
            get (snd (RegularizePhi dictionary this p_wt n_wt result)) token_id topic_id =
            float_of_double
              (dmul (Finite 1) (transform_function this (get p_wt token_id topic_id))))"
    by (simp add: RegularizePhi_fields get_def ptr coefficient_no_dictionary)
  from same rest show ?thesis
    by (rule conjI)
qed

text \<open>
  The sample regularizer names ``dict''; with a lookup that resolves nothing the cell of
  the token X at topic t2 receives 5, the value in \<^verbatim>\<open>p_wt\<close>.
\<close>

theorem unresolved_dictionary_is_neutral_witness:
  "config_dictionary_name (config sample_with_dictionary) = Some ''dict'' \<and>
   no_dictionaries ''dict'' = None \<and>
   token_passes (config sample_with_dictionary) sample_p_wt 0 \<and>
   topic_selected (config sample_with_dictionary) sample_p_wt 2 \<and>
   fst (RegularizePhi no_dictionaries sample_with_dictionary sample_p_wt sample_n_wt
          sample_result) = True \<and>
   get (snd (RegularizePhi no_dictionaries sample_with_dictionary sample_p_wt sample_n_wt
               sample_result)) 0 2 = Finite 5"
proof -
  have h1: "config_dictionary_name (config sample_with_dictionary) = Some ''dict''"
    by (simp add: sample_with_dictionary_def)
  have h2: "no_dictionaries ''dict'' = None"
    by (simp add: no_dictionaries_def)
  have h3: "token_passes (config sample_with_dictionary) sample_p_wt 0"
    by (simp add: token_passes_def sample_with_dictionary_def sample_p_wt_def
          sample_tokens_def token_size_def)
  have h4: "topic_selected (config sample_with_dictionary) sample_p_wt 2"
    by (simp add: topic_selected_names sample_with_dictionary_def sample_p_wt_def
          topic_size_def)
  have f: "transform_function sample_with_dictionary (get sample_p_wt 0 2) = Finite 5"
    by (simp add: sample_with_dictionary_def sample_p_wt_def get_def)
  note inst = unresolved_dictionary_is_neutral
            [where dictionary = no_dictionaries and p_wt = sample_p_wt and n_wt = sample_n_wt
               and result = sample_result and token_id = 0 and topic_id = 2,
             OF h1 h2]
  from inst have ret: "fst (RegularizePhi no_dictionaries sample_with_dictionary sample_p_wt
                              sample_n_wt sample_result) = True"
    by (elim conjE)
  from inst h3 h4 have "get (snd (RegularizePhi no_dictionaries sample_with_dictionary
                                    sample_p_wt sample_n_wt sample_result)) 0 2 =
                        float_of_double
                          (dmul (Finite 1)
                             (transform_function sample_with_dictionary
                                (get sample_p_wt 0 2)))"
    by (elim conjE) (rule mp, assumption, rule conjI)
  then have val: "get (snd (RegularizePhi no_dictionaries sample_with_dictionary
                              sample_p_wt sample_n_wt sample_result)) 0 2 = Finite 5"
    by (simp only: f mul_examples)
  from h1 h2 h3 h4 ret val show ?thesis
    by (intro conjI)
qed


text \<open>
  Claim C2. When the blob does not parse, \<^verbatim>\<open>Reconfigure\<close> throws the corrupted-message
  exception and the regularizer (configuration and transform function) is what it was;
  when it parses, the call returns true and both are replaced from the parsed
  configuration; the regularizer differs after the call only if the blob parsed.
\<close>

theorem Reconfigure_atomic:
  "(ParseFromString (config_blob rc) = None \<longrightarrow>
      Reconfigure ParseFromString create this rc =
        (Inl (CorruptedMessageException
                ''Unable to parse SmoothSparsePhiConfig from RegularizerConfig.config''),
         this)) \<and>
   (ParseFromString (config_blob rc) = Some conf \<longrightarrow>
      Reconfigure ParseFromString create this rc =
        (Inr True,
         this\<lparr>config := conf, transform_function := create (config_transform_config conf)\<rparr>)) \<and>
   (snd (Reconfigure ParseFromString create this rc) \<noteq> this \<longrightarrow>
      ParseFromString (config_blob rc) \<noteq> None)"
  by (cases "config_transform_config conf")
     (auto simp: Reconfigure_def Let_def split: option.splits)

text \<open>The blob ``bad'' is rejected and changes nothing; the blob ``ok'' replaces both parts.\<close>

theorem Reconfigure_atomic_witness:
  "sample_parse (config_blob \<lparr>config_blob = ''bad''\<rparr>) = None \<and>
   Reconfigure sample_parse sample_create sample_filtered \<lparr>config_blob = ''bad''\<rparr> =
     (Inl (CorruptedMessageException
             ''Unable to parse SmoothSparsePhiConfig from RegularizerConfig.config''),
      sample_filtered) \<and>
   sample_parse (config_blob \<lparr>config_blob = ''ok''\<rparr>) \<noteq> None \<and>
   fst (Reconfigure sample_parse sample_create sample_filtered \<lparr>config_blob = ''ok''\<rparr>) =
     Inr True \<and>
   config (snd (Reconfigure sample_parse sample_create sample_filtered
                  \<lparr>config_blob = ''ok''\<rparr>)) =
     \<lparr>config_topic_name = [''t0''], config_class_id = [],
      config_dictionary_name = None, config_transform_config = Some ()\<rparr> \<and>
   transform_function (snd (Reconfigure sample_parse sample_create sample_filtered
                              \<lparr>config_blob = ''ok''\<rparr>)) = sample_create (Some ()) \<and>
   snd (Reconfigure sample_parse sample_create sample_filtered \<lparr>config_blob = ''ok''\<rparr>) \<noteq>
     sample_filtered"
proof -
  let ?conf = "\<lparr>config_topic_name = [''t0''], config_class_id = [],
                config_dictionary_name = None, config_transform_config = Some ()\<rparr>"
  have bad: "sample_parse (config_blob \<lparr>config_blob = ''bad''\<rparr>) = None"
    by (simp add: sample_parse_def)
  have ok: "sample_parse (config_blob \<lparr>config_blob = ''ok''\<rparr>) = Some ?conf"
    by (simp add: sample_parse_def)
  have rejected:
    "Reconfigure sample_parse sample_create sample_filtered \<lparr>config_blob = ''bad''\<rparr> =
       (Inl (CorruptedMessageException
               ''Unable to parse SmoothSparsePhiConfig from RegularizerConfig.config''),
        sample_filtered)"
    using Reconfigure_atomic [of sample_parse "\<lparr>config_blob = ''bad''\<rparr>" sample_create
            sample_filtered] bad
    by blast
  have applied:
    "Reconfigure sample_parse sample_create sample_filtered \<lparr>config_blob = ''ok''\<rparr> =
       (Inr True,
        sample_filtered\<lparr>config := ?conf,
          transform_function := sample_create (config_transform_config ?conf)\<rparr>)"
    using Reconfigure_atomic [of sample_parse "\<lparr>config_blob = ''ok''\<rparr>" sample_create
            sample_filtered ?conf] ok
    by blast
  have differs: "config sample_filtered \<noteq> ?conf"
    by (simp add: sample_filtered_def)
  have changed:
    "snd (Reconfigure sample_parse sample_create sample_filtered \<lparr>config_blob = ''ok''\<rparr>) \<noteq>
       sample_filtered"
  proof
    assume "snd (Reconfigure sample_parse sample_create sample_filtered
                   \<lparr>config_blob = ''ok''\<rparr>) = sample_filtered"
    then have "config (snd (Reconfigure sample_parse sample_create sample_filtered
                              \<lparr>config_blob = ''ok''\<rparr>)) = config sample_filtered"
      by (rule arg_cong)
    then show False
      using differs by (simp add: applied)
  qed
  show ?thesis
    using bad ok rejected changed by (simp add: applied)
qed

section \<open>Claims about the disk generation\<close>

text \<open>
  The constructor's loop rebuilds the scanned list, and \<^verbatim>\<open>batch\<close> leaves the generation
  as it found it, whether the decoder throws or not.
\<close>

lemma push_back_prefix:
  "n \<le> length batches \<Longrightarrow>
   fold (\<lambda>i g. g @ [batches ! i]) [0..<n] [] = take n batches"
proof (induction n)
  case 0
  show ?case by simp
next
  case (Suc n)
  then have "fold (\<lambda>i g. g @ [batches ! i]) [0..<n] [] = take n batches"
    by simp
  moreover have "take (Suc n) batches = take n batches @ [batches ! n]"
    using Suc.prems by (simp add: take_Suc_conv_app_nth)
  ultimately show ?case by simp
qed

lemma push_back_all:
  "fold (\<lambda>i g. g @ [batches ! i]) [0..<length batches] [] = batches"
  by (simp add: push_back_prefix)

lemma batch_keeps_generation:
  "snd (batch LoadMessage lexical_cast fill this task) = this"
  by (simp add: batch_def Let_def split: sum.splits)

lemma batch_calls_keeps_generation:
  "batch_calls LoadMessage lexical_cast fill this tasks = this"
  by (induction tasks arbitrary: this) (simp_all add: batch_keeps_generation)

text \<open>
  Claim C3. For every task whose file decodes, \<^verbatim>\<open>batch\<close> returns a Batch whose id is the
  string form of the task's identifier, whatever id the decoded payload reported.
\<close>

theorem batch_stamps_id:
  assumes "LoadMessage (file_path task) = Inr loaded"
  shows "\<exists>b. fst (batch LoadMessage lexical_cast fill this task) = Inr b \<and>
             batch_id b = lexical_cast (uuid task)"
  using assms by (simp add: batch_def Let_def PopulateClassId_def)

text \<open>
  The task A of the sample generation: its payload reports the id ``old'', the batch
  returned carries ``A''.
\<close>

theorem batch_stamps_id_witness:
  "\<lparr>uuid = 1, file_path = ''/d/a.bin''\<rparr> \<in> set (batch_uuids sample_generation) \<and>
   sample_load (file_path \<lparr>uuid = 1 :: nat, file_path = ''/d/a.bin''\<rparr>) =
     Inr \<lparr>batch_id = ''old'', batch_token = [''w''], batch_class_id = []\<rparr> \<and>
   ''old'' \<noteq> sample_cast (uuid \<lparr>uuid = 1 :: nat, file_path = ''/d/a.bin''\<rparr>) \<and>
   (\<exists>b. fst (batch sample_load sample_cast sample_fill sample_generation
                 \<lparr>uuid = 1, file_path = ''/d/a.bin''\<rparr>) = Inr b \<and>
        batch_id b = ''A'')"
proof -
  let ?task = "\<lparr>uuid = 1 :: nat, file_path = ''/d/a.bin''\<rparr>"
  have held: "?task \<in> set (batch_uuids sample_generation)"
    by (simp add: batch_uuids_def sample_generation_def)
  have decoded: "sample_load (file_path ?task) =
                 Inr \<lparr>batch_id = ''old'', batch_token = [''w''], batch_class_id = []\<rparr>"
    by (simp add: sample_load_def)
  have stale: "''old'' \<noteq> sample_cast (uuid ?task)"
    by (simp add: sample_cast_def)
  have name: "sample_cast (uuid ?task) = ''A''"
    by (simp add: sample_cast_def)
  have "\<exists>b. fst (batch sample_load sample_cast sample_fill sample_generation ?task) = Inr b \<and>
            batch_id b = sample_cast (uuid ?task)"
    using decoded by (rule batch_stamps_id)
  then have stamped: "\<exists>b. fst (batch sample_load sample_cast sample_fill sample_generation
                                  ?task) = Inr b \<and> batch_id b = ''A''"
    by (simp only: name)
  from held decoded stale stamped show ?thesis
    by (intro conjI)
qed

text \<open>
  Claim C4. For every generation and every batch, \<^verbatim>\<open>AddBatch\<close> throws the invalid-operation
  exception; its message tells the caller to set the disk path of the configuration to
  an empty string to enable additions and to save batches to disk with the save
  operation; the task list of the generation is the same after the call.
\<close>

theorem AddBatch_always_fails:
  "AddBatch this b =
     (Inl (InvalidOperation
        ''ArtmAddBatch() is not allowed with current configuration. Please, set the configuration parameter MasterComponentConfig.disk_path to an empty string in order to enable ArtmAddBatch() operation. Use ArtmSaveBatch() operation to save batches to disk.''),
      this) \<and>
   batch_uuids (snd (AddBatch this b)) = batch_uuids this"
  by (simp add: AddBatch_def Let_def)

text \<open>
  Claim C7. For every identifier, held or not, \<^verbatim>\<open>RemoveBatch\<close> returns normally, leaves
  the generation and so its task list as they were, and appends one log entry of
  severity ERROR, which does not end the process.
\<close>

theorem RemoveBatch_is_noop:
  "RemoveBatch this u lg =
     (Inr (), this, lg @ [(ERROR, ''Remove batch is not supported in disk generation.'')]) \<and>
   batch_uuids (fst (snd (RemoveBatch this u lg))) = batch_uuids this \<and>
   fst (last (snd (snd (RemoveBatch this u lg)))) \<noteq> FATAL"
  by (simp add: RemoveBatch_def)

text \<open>
  The scanner's tasks carry the identifiers of the files in scan order, which are pairwise
  distinct.
\<close>

lemma scanned_uuids:
  "map uuid (map (\<lambda>(u, p). \<lparr>uuid = u, file_path = p\<rparr>) xs) = map fst xs"
  by (induction xs) auto

lemma ListAllBatches_distinct:
  assumes "ListAllBatches disk path = Inr batches"
  shows "distinct (map uuid batches)"
proof (cases "disk path")
  case (Inl e)
  with assms show ?thesis
    by (simp add: ListAllBatches_def)
next
  case (Inr files)
  with assms
  have "batches = map (\<lambda>(u, p). \<lparr>uuid = u, file_path = p\<rparr>) (DAList.impl_of files)"
    by (simp add: ListAllBatches_def)
  then show ?thesis
    by (simp only: scanned_uuids impl_of_distinct)
qed

text \<open>
  Claim C6. When the directory holds K batch files, the constructor yields a generation
  whose task list is the K tasks of the scan in scan order, with pairwise distinct
  identifiers, and after any run of \<^verbatim>\<open>batch\<close> calls the task list is still that list.
\<close>

theorem DiskGeneration_snapshot:
  assumes "disk path = Inr files"
  shows "\<exists>g. DiskGeneration_new disk path = Inr g \<and>
             batch_uuids g =
               map (\<lambda>(u, p). \<lparr>uuid = u, file_path = p\<rparr>) (DAList.impl_of files) \<and>
             length (batch_uuids g) = length (DAList.impl_of files) \<and>
             distinct (map uuid (batch_uuids g)) \<and>
             batch_uuids (batch_calls LoadMessage lexical_cast fill g tasks) = batch_uuids g"
proof -
  let ?batches = "map (\<lambda>(u, p). \<lparr>uuid = u, file_path = p\<rparr>) (DAList.impl_of files)"
  have scan: "ListAllBatches disk path = Inr ?batches"
    using assms by (simp add: ListAllBatches_def)
  then have uniq: "distinct (map uuid ?batches)"
    by (rule ListAllBatches_distinct)
  let ?g = "\<lparr>disk_path = path, generation = ?batches\<rparr>"
  have new: "DiskGeneration_new disk path = Inr ?g"
    using push_back_all [of ?batches] by (simp add: DiskGeneration_new_def scan)
  have list: "batch_uuids ?g = ?batches"
    by (simp add: batch_uuids_def)
  have kept: "batch_uuids (batch_calls LoadMessage lexical_cast fill ?g tasks) = batch_uuids ?g"
    by (simp only: batch_calls_keeps_generation)
  have "DiskGeneration_new disk path = Inr ?g \<and>
        batch_uuids ?g = ?batches \<and>
        length (batch_uuids ?g) = length (DAList.impl_of files) \<and>
        distinct (map uuid (batch_uuids ?g)) \<and>
        batch_uuids (batch_calls LoadMessage lexical_cast fill ?g tasks) = batch_uuids ?g"
    using new uniq kept by (simp add: list)
  then show ?thesis
    by (rule exI)
qed

text \<open>
  The directory ``/d'' holds the files of A and B: the task list is A, B with two distinct
  identifiers, also after loading A, B and A again.
\<close>

theorem DiskGeneration_snapshot_witness:
  "sample_disk ''/d'' = Inr (DAList.Alist [(1, ''/d/a.bin''), (2, ''/d/b.bin'')]) \<and>
   DAList.impl_of (DAList.Alist [(1 :: nat, ''/d/a.bin''), (2, ''/d/b.bin'')]) =
     [(1, ''/d/a.bin''), (2, ''/d/b.bin'')] \<and>
   (\<exists>g. DiskGeneration_new sample_disk ''/d'' = Inr g \<and>
        batch_uuids g =
          [\<lparr>uuid = 1, file_path = ''/d/a.bin''\<rparr>, \<lparr>uuid = 2, file_path = ''/d/b.bin''\<rparr>] \<and>
        length (batch_uuids g) = 2 \<and>
        distinct (map uuid (batch_uuids g)) \<and>
        batch_uuids (batch_calls sample_load sample_cast sample_fill g
                       [\<lparr>uuid = 1, file_path = ''/d/a.bin''\<rparr>,
                        \<lparr>uuid = 2, file_path = ''/d/b.bin''\<rparr>,
                        \<lparr>uuid = 1, file_path = ''/d/a.bin''\<rparr>]) = batch_uuids g)"
proof -
  let ?A = "\<lparr>uuid = 1 :: nat, file_path = ''/d/a.bin''\<rparr>"
  let ?B = "\<lparr>uuid = 2 :: nat, file_path = ''/d/b.bin''\<rparr>"
  let ?files = "DAList.Alist [(1 :: nat, ''/d/a.bin''), (2, ''/d/b.bin'')]"
  have scan: "sample_disk ''/d'' = Inr ?files"
    by (simp add: sample_disk_def)
  have files: "DAList.impl_of ?files = [(1, ''/d/a.bin''), (2, ''/d/b.bin'')]"
    by (simp add: Alist_inverse)
  obtain g where g: "DiskGeneration_new sample_disk ''/d'' = Inr g"
      "batch_uuids g =
         map (\<lambda>(u, p). \<lparr>uuid = u, file_path = p\<rparr>) (DAList.impl_of ?files)"
      "length (batch_uuids g) = length (DAList.impl_of ?files)"
      "distinct (map uuid (batch_uuids g))"
      "batch_uuids (batch_calls sample_load sample_cast sample_fill g [?A, ?B, ?A]) =
       batch_uuids g"
    using DiskGeneration_snapshot
            [where disk = sample_disk and path = "''/d''" and files = ?files
               and LoadMessage = sample_load and lexical_cast = sample_cast
               and fill = sample_fill and tasks = "[?A, ?B, ?A]", OF scan]
    by blast
  from g(2) files have list: "batch_uuids g = [?A, ?B]"
    by simp
  from g(3) files have two: "length (batch_uuids g) = 2"
    by simp
  from g(1) list two g(4) g(5)
  have "\<exists>g. DiskGeneration_new sample_disk ''/d'' = Inr g \<and>
        batch_uuids g = [?A, ?B] \<and>
        length (batch_uuids g) = 2 \<and>
        distinct (map uuid (batch_uuids g)) \<and>
        batch_uuids (batch_calls sample_load sample_cast sample_fill g [?A, ?B, ?A]) =
          batch_uuids g"
    by blast
  with scan files show ?thesis
    by (intro conjI)
qed

end
